theory Spec2Isabelle
  imports Main "HOL-Library.Word"
begin

section \<open>Data model\<close>

text \<open>
  The Python extension of dlisio: \<open>fingerprint\<close> and \<open>read_fdata\<close>, the decoder of
  frame data (FDATA) records into the rows of a caller-owned buffer.

  Record bytes are \<open>char\<close>s, as in the source (\<open>std::vector<char>\<close>, \<open>const char*\<close>);
  a \<open>std::string\<close> is a \<open>string\<close>.
\<close>

text \<open>The identity values of \<open>dlisio/ext/types.hpp\<close>, with the fields the source sets.\<close>

record obname =
  origin :: "32 word"
  copy :: "8 word"
  id' :: string

record objref =
  type :: string
  name :: obname

record attref =
  atype :: string
  aname :: obname
  label :: string

text \<open>\<open>struct datetime\<close> of typeconv.hpp: the eight integer components of a DTIME.\<close>

record datetime =
  Y :: int
  TZ :: int
  M :: int
  D :: int
  H :: int
  MN :: int
  S :: int
  MS :: int

text \<open>
  What the source throws. The exception class is the constructor:
  \<open>std::invalid_argument\<close>, \<open>py::value_error\<close>, \<open>dl::not_implemented\<close>,
  \<open>std::runtime_error\<close>, \<open>py::error_already_set\<close>; \<open>stream_error\<close> stands for what
  \<open>dl::stream\<close> throws. The last constructor is no exception: it marks an execution
  that has left defined behaviour (a read past the end of the record's bytes, a
  \<open>Py_DECREF\<close> of something that is no live object), after which the C++ says nothing.
\<close>

datatype error =
    invalid_argument string
  | value_error string
  | not_implemented string
  | runtime_error string
  | error_already_set
  | stream_error string
  | undefined_behaviour string

section \<open>storage_label\<close>

text \<open>
  The interpreter's warnings, as far as this module raises them: \<open>runtime_warning\<close>
  of \<open>dlisio/ext/exception.hpp\<close> appends one. \<open>storage_label\<close> is its only caller
  in the source. \<open>dlis_sul\<close>, \<open>DLIS_SUL_SIZE\<close>, \<open>DLIS_STRUCTURE_RECORD\<close> and
  \<open>std::to_string\<close> are parameters; the dictionary returned is a record.
\<close>

datatype dlis_status = DLIS_OK | DLIS_UNEXPECTED_VALUE | DLIS_INCONSISTENT | DLIS_other int

record sul =
  seqnum :: int
  major :: int
  minor :: int
  sul_layout :: int
  sul_maxlen :: int
  sul_id :: string

record label_dict =
  sequence_of :: int
  version_of :: string
  layout_of :: string
  maxlen_of :: int
  id_of :: string

definition runtime_warning :: "string \<Rightarrow> string list \<Rightarrow> string list" where
  "runtime_warning msg ws = ws @ [msg]"

definition storage_label ::
  "(string \<Rightarrow> dlis_status \<times> sul) \<Rightarrow> nat \<Rightarrow> int \<Rightarrow> (int \<Rightarrow> string) \<Rightarrow> string \<Rightarrow> string list
     \<Rightarrow> (error + label_dict) \<times> string list" where
  "storage_label dlis_sul sul_size structure_record to_string b ws =
     (if length b < sul_size then
        (Inl (invalid_argument
               (''buffer to small: buffer.size (which is '' @ to_string (int (length b))
                @ '') < '' @ ''n (which is '' @ to_string (int sul_size) @ '')'')), ws)
      else
        case dlis_sul b of (err, l) \<Rightarrow>
          if err = DLIS_UNEXPECTED_VALUE
          then (Inl (value_error ''unable to parse storage label''), ws)
          else
            let ws = (if err = DLIS_INCONSISTENT
                      then runtime_warning
                             (''storage unit label inconsistent with ''
                              @ ''specification - falling back to assuming DLIS v1'') ws
                      else ws);
                version = to_string (major l) @ ''.'' @ to_string (minor l);
                laystr = (if sul_layout l = structure_record then ''record'' else ''unknown'')
            in (Inr \<lparr>sequence_of = seqnum l, version_of = version, layout_of = laystr,
                      maxlen_of = sul_maxlen l, id_of = sul_id l\<rparr>, ws))"

section \<open>fingerprint\<close>

text \<open>
  \<open>fingerprint(type, id, origin, copy)\<close>. Both integers are \<open>std::int32_t\<close>; the
  comparisons with the limits of \<open>std::uint8_t\<close> are signed comparisons on
  \<open>int\<close>. \<open>dl::objref::fingerprint\<close> is not part of these sources and is a
  parameter.
\<close>

definition fingerprint ::
  "(objref \<Rightarrow> string) \<Rightarrow> string \<Rightarrow> string \<Rightarrow> 32 word \<Rightarrow> 32 word \<Rightarrow> error + string" where
  "fingerprint objref_fingerprint ty ident org cp =
     (let msg = ''Invalid argument, copy out of range'' in
      if 255 < sint cp then Inl (invalid_argument msg)
      else if sint cp < 0 then Inl (invalid_argument msg)
      else
        let ucopy = (ucast cp :: 8 word);
            ref = \<lparr>type = ty, name = \<lparr>origin = org, copy = ucopy, id' = ident\<rparr>\<rparr>
        in Inr (objref_fingerprint ref))"

section \<open>The world of read_fdata\<close>

text \<open>
  The format strings are \<open>const char*\<close> over the characters \<open>DLIS_FMT_*\<close> of
  \<open>dlisio/types.h\<close>, one per representation code (the codes of the \<open>reprc\<close> enum). The
  header is not part of these sources, so the characters are the constructors of a
  datatype: distinct, and nothing else is known of them.
\<close>

datatype fmtchar =
    DLIS_FMT_FSHORT | DLIS_FMT_FSINGL | DLIS_FMT_FSING1 | DLIS_FMT_FSING2
  | DLIS_FMT_ISINGL | DLIS_FMT_VSINGL | DLIS_FMT_FDOUBL | DLIS_FMT_FDOUB1
  | DLIS_FMT_FDOUB2 | DLIS_FMT_CSINGL | DLIS_FMT_CDOUBL | DLIS_FMT_SSHORT
  | DLIS_FMT_SNORM | DLIS_FMT_SLONG | DLIS_FMT_USHORT | DLIS_FMT_UNORM
  | DLIS_FMT_ULONG | DLIS_FMT_UVARI | DLIS_FMT_IDENT | DLIS_FMT_ASCII
  | DLIS_FMT_DTIME | DLIS_FMT_ORIGIN | DLIS_FMT_OBNAME | DLIS_FMT_OBJREF
  | DLIS_FMT_ATTREF | DLIS_FMT_STATUS | DLIS_FMT_UNITS

text \<open>
  Python objects the decoder makes. A float is kept as the bits the primitive decoded
  (\<open>float\<close> or \<open>double\<close>); no arithmetic is done on it.
\<close>

datatype pyfloat = Single "32 word" | Double "64 word"

datatype pyobject =
    PyNone
  | PyTuple "pyfloat list"
  | PyStr string
  | PyObname obname
  | PyObjref objref
  | PyAttref attref
  | PyDateTime int int int int int int int

text \<open>
  The destination buffer \<open>info.ptr\<close>, by byte offset. A cell is what one field write
  leaves at its offset: an object pointer (\<open>sizeof(PyObject*)\<close> bytes, here the address
  of the object in the heap below), the 255 code units of an identifier, or the bytes
  \<open>dlis_packf\<close> packed.
\<close>

datatype cell = PyObject_ptr nat | Unicode "32 word list" | Packed string

text \<open>\<open>dl::record\<close>: the fields \<open>read_fdata\<close> reads.\<close>

record dl_record =
  data :: string
  isencrypted :: bool

text \<open>
  The primitive decoders of the dlisio core library and the two CPython constructors
  that can refuse their arguments. None of them is part of these sources, so all are
  parameters of the model. A decoder takes the bytes at the cursor and returns the
  number of bytes it read together with its value, as the C function returns the advanced
  pointer and fills its out-parameters. \<open>dlis_packflen\<close> gives \<open>(src_skip, dst_skip)\<close>,
  \<open>dlis_packf\<close> the bytes it writes to the destination. \<open>PyDateTime_valid\<close> says
  whether \<open>PyDateTime_FromDateAndTime\<close> returns an object (and not \<open>NULL\<close>);
  \<open>py_str\<close> is \<open>py::str(ptr, len)\<close>, an object or what the constructor throws (the
  source's \<open>maybe_decode\<close> catches \<open>std::runtime_error\<close> from it); for a string the
  interpreter keeps one object of (CPython does so for the empty and the one-character
  strings) \<open>py_shared\<close> is the address of that object, to which \<open>py::str\<close> then
  hands out a new reference instead of making an object.
  \<open>DLIS_YEAR_ZERO\<close> is the year-origin bias of \<open>dlis_year\<close>.
\<close>

record catalog =
  dlis_uvari :: "string \<Rightarrow> nat \<times> nat"
  dlis_ident :: "string \<Rightarrow> nat \<times> string"
  dlis_obname :: "string \<Rightarrow> nat \<times> obname"
  dlis_objref :: "string \<Rightarrow> nat \<times> objref"
  dlis_attref :: "string \<Rightarrow> nat \<times> attref"
  dlis_dtime :: "string \<Rightarrow> nat \<times> datetime"
  dlis_fsing1 :: "string \<Rightarrow> nat \<times> 32 word \<times> 32 word"
  dlis_fsing2 :: "string \<Rightarrow> nat \<times> 32 word \<times> 32 word \<times> 32 word"
  dlis_fdoub1 :: "string \<Rightarrow> nat \<times> 64 word \<times> 64 word"
  dlis_fdoub2 :: "string \<Rightarrow> nat \<times> 64 word \<times> 64 word \<times> 64 word"
  dlis_packflen :: "fmtchar list \<Rightarrow> string \<Rightarrow> nat \<times> nat"
  dlis_packf :: "fmtchar list \<Rightarrow> string \<Rightarrow> string"
  DLIS_YEAR_ZERO :: int
  PyDateTime_valid :: "int \<Rightarrow> int \<Rightarrow> int \<Rightarrow> int \<Rightarrow> int \<Rightarrow> int \<Rightarrow> int \<Rightarrow> bool"
  py_str :: "string \<Rightarrow> error + pyobject"
  py_shared :: "string \<Rightarrow> nat option"

text \<open>
  The state \<open>read_fdata\<close> works on: the destination buffer \<open>mem\<close> and its write cursor
  \<open>dst\<close> (an offset from \<open>info.ptr\<close>), the read cursor \<open>ptr\<close> (an offset into the
  current record's bytes, whose \<open>end\<close> is their length), \<open>expected_frameno\<close>, the
  Python heap (an object's address is its index; the first component is its reference
  count, 0 once it is freed) and the warnings the interpreter has been given
  (\<open>runtime_warning\<close>).
\<close>

record state =
  mem :: "nat \<Rightarrow> cell option"
  dst :: nat
  ptr :: nat
  expected_frameno :: int
  heap :: "(nat \<times> pyobject) list"
  warnings :: "string list"

text \<open>
  A run ends normally in a state, or with an error in the state it had reached: a C++
  exception does not undo the writes made before it.
\<close>

datatype outcome = Ok state | Fail error state

fun and_then :: "outcome \<Rightarrow> (state \<Rightarrow> outcome) \<Rightarrow> outcome" where
  "and_then (Ok s) f = f s"
| "and_then (Fail e s) f = Fail e s"

section \<open>Python references\<close>


text \<open>\<open>Py_DECREF\<close>: defined only on a live object.\<close>

definition Py_DECREF :: "nat \<Rightarrow> state \<Rightarrow> outcome" where
  "Py_DECREF p s =
     (if p < length (heap s) \<and> 0 < fst (heap s ! p)
      then Ok (s\<lparr>heap := (heap s)[p := (fst (heap s ! p) - 1, snd (heap s ! p))]\<rparr>)
      else Fail (undefined_behaviour ''Py_DECREF of a pointer to no live object'') s)"

definition inc_ref :: "nat \<Rightarrow> state \<Rightarrow> state" where
  "inc_ref p s = s\<lparr>heap := (heap s)[p := (fst (heap s ! p) + 1, snd (heap s ! p))]\<rparr>"

text \<open>\<open>Py_INCREF\<close>, where the source takes a reference to an object that is there already.\<close>

definition Py_INCREF :: "nat \<Rightarrow> state \<Rightarrow> outcome" where
  "Py_INCREF p s =
     (if p < length (heap s) \<and> 0 < fst (heap s ! p)
      then Ok (inc_ref p s)
      else Fail (undefined_behaviour ''Py_INCREF of a pointer to no live object'') s)"

text \<open>
  An object the decoder makes (a tuple, an identity value, a timestamp, a string the
  interpreter does not share): a fresh address, held by one reference (the handle that
  made it).
\<close>

definition py_new :: "pyobject \<Rightarrow> state \<Rightarrow> nat \<times> state" where
  "py_new v s = (length (heap s), s\<lparr>heap := heap s @ [(1, v)]\<rparr>)"

text \<open>\<open>sizeof(PyObject*)\<close> on the source's platform (amd64).\<close>

definition sizeof_ptr :: nat where
  "sizeof_ptr = 8"

text \<open>
  The lambda \<open>swap_pointer\<close>: read the pointer in the slot, \<open>Py_DECREF\<close> it, take a
  reference to the new object, store its pointer and move \<open>dst\<close> on. A slot that holds no
  object pointer makes the \<open>Py_DECREF\<close> undefined.
\<close>

definition swap_pointer :: "nat \<Rightarrow> state \<Rightarrow> outcome" where
  "swap_pointer obj s =
     (case mem s (dst s) of
        Some (PyObject_ptr p) \<Rightarrow>
          and_then (Py_DECREF p s)
            (\<lambda>s. let s = inc_ref obj s in
                 Ok (s\<lparr>mem := (mem s)(dst s \<mapsto> PyObject_ptr obj), dst := dst s + sizeof_ptr\<rparr>))
      | _ \<Rightarrow> Fail (undefined_behaviour ''Py_DECREF of a slot that holds no object pointer'') s)"

text \<open>
  \<open>auto t = py::make_tuple(...); swap_pointer(t); continue;\<close> and
  \<open>swap_pointer(py::cast(name)); continue;\<close>: the object is made, swapped in, and the
  handle that made it goes out of scope, which gives its reference back.
\<close>

definition put_object :: "pyobject \<Rightarrow> state \<Rightarrow> outcome" where
  "put_object v s =
     (let (obj, s) = py_new v s in
      and_then (swap_pointer obj s) (Py_DECREF obj))"

text \<open>
  \<open>auto ascii = py::str(ptr, len); ...; swap_pointer(ascii);\<close> for a string the
  interpreter shares: the handle is a new reference to the shared object.
\<close>

definition put_shared :: "nat \<Rightarrow> state \<Rightarrow> outcome" where
  "put_shared obj s =
     and_then (Py_INCREF obj s) (\<lambda>s. and_then (swap_pointer obj s) (Py_DECREF obj))"


section \<open>read_fdata\<close>

text \<open>
  \<open>ptr = dlis_xxx(ptr, ...)\<close> with no check before it: the primitive reads \<open>n\<close> bytes
  at the cursor and returns the cursor behind them. Past the end of the record's bytes
  that read is outside the vector: undefined behaviour.
\<close>

definition consume :: "string \<Rightarrow> nat \<Rightarrow> state \<Rightarrow> outcome" where
  "consume bytes n s =
     (if length bytes < ptr s + n
      then Fail (undefined_behaviour ''read past the end of the record'') s
      else Ok (s\<lparr>ptr := ptr s + n\<rparr>))"

text \<open>The lambda \<open>assert_overflow\<close>, with \<open>end\<close> the length of the record's bytes.\<close>

definition assert_overflow :: "string \<Rightarrow> nat \<Rightarrow> nat \<Rightarrow> state \<Rightarrow> outcome" where
  "assert_overflow bytes p skip s =
     (if length bytes < p + skip
      then Fail (runtime_error ''corrupted record: fmtstr would read past end'') s
      else Ok s)"

definition dlis_year :: "catalog \<Rightarrow> int \<Rightarrow> int" where
  \<comment> \<open>Modelled from the spec: \<open>dlis_year\<close> of the dlisio core library, which is not part of
     these sources: "normalize year using the format's year-origin bias".\<close>
  "dlis_year C y = y + DLIS_YEAR_ZERO C"

text \<open>\<open>std::uint32_t(tmp[i])\<close>: \<open>char\<close> is signed on the source's platform (amd64 Linux).\<close>

definition widen :: "char \<Rightarrow> 32 word" where
  "widen c = scast (of_char c :: 8 word)"

definition chars :: nat where
  "chars = 255"

definition ident_size :: nat where
  "ident_size = chars * 4"

text \<open>
  \<open>memset(dst, 0, ident_size)\<close>, then the loop
  \<open>for (i = 0; i < len; ++i) memcpy(dst + i * sizeof(x), &x, sizeof(x))\<close>.
\<close>

definition ident_units :: "string \<Rightarrow> 32 word list" where
  "ident_units tmp =
     fold (\<lambda>i buf. buf[i := widen (tmp ! i)]) [0..<length tmp] (replicate chars 0)"

text \<open>
  \<open>PyDateTime_FromDateAndTime(Y, M, D, H, MN, S, US)\<close> after \<open>Y = dlis_year(Y)\<close> and
  \<open>US = MS * 1000\<close>: the object it makes, and whether it makes one. \<open>TZ\<close> is not
  among its arguments.
\<close>

definition timestamp :: "catalog \<Rightarrow> datetime \<Rightarrow> pyobject" where
  "timestamp C d =
     PyDateTime (dlis_year C (Y d)) (M d) (D d) (H d) (MN d) (S d) (MS d * 1000)"

definition timestamp_valid :: "catalog \<Rightarrow> datetime \<Rightarrow> bool" where
  "timestamp_valid C d =
     PyDateTime_valid C (dlis_year C (Y d)) (M d) (D d) (H d) (MN d) (S d) (MS d * 1000)"

text \<open>
  One pass of the loop over the format string, for the character \<open>f\<close>: the chain of
  \<open>if (*f == ...)\<close> in the source's order, the generic \<open>dlis_packf\<close> path last. The
  buffers \<open>tmp\<close>, \<open>id\<close>, \<open>objname\<close> hold 255 characters; an identifier longer than
  that would be read from outside them.
\<close>

definition field :: "catalog \<Rightarrow> string \<Rightarrow> fmtchar \<Rightarrow> state \<Rightarrow> outcome" where
  "field C bytes f s =
     (let src = drop (ptr s) bytes in
      if f = DLIS_FMT_FSING1 then
        (case dlis_fsing1 C src of (n, v, a) \<Rightarrow>
           and_then (consume bytes n s) (put_object (PyTuple [Single v, Single a])))
      else if f = DLIS_FMT_FSING2 then
        (case dlis_fsing2 C src of (n, v, a, b) \<Rightarrow>
           and_then (consume bytes n s) (put_object (PyTuple [Single v, Single a, Single b])))
      else if f = DLIS_FMT_FDOUB1 then
        (case dlis_fdoub1 C src of (n, v, a) \<Rightarrow>
           and_then (consume bytes n s) (put_object (PyTuple [Double v, Double a])))
      else if f = DLIS_FMT_FDOUB2 then
        (case dlis_fdoub2 C src of (n, v, a, b) \<Rightarrow>
           and_then (consume bytes n s) (put_object (PyTuple [Double v, Double a, Double b])))
      else if f = DLIS_FMT_IDENT \<or> f = DLIS_FMT_UNITS then
        (case dlis_ident C src of (n, tmp) \<Rightarrow>
           and_then (consume bytes n s)
             (\<lambda>s. if chars < length tmp
                  then Fail (undefined_behaviour ''identifier longer than tmp[255]'') s
                  else Ok (s\<lparr>mem := (mem s)(dst s \<mapsto> Unicode (ident_units tmp)),
                             dst := dst s + ident_size\<rparr>)))
      else if f = DLIS_FMT_ASCII then
        (case dlis_uvari C src of (n, len) \<Rightarrow>
           and_then (consume bytes n s)
             (\<lambda>s. and_then (consume bytes len s)
                (\<lambda>s'. case py_str C (take len (drop (ptr s) bytes)) of
                         Inl e \<Rightarrow> Fail e s
                       | Inr ascii \<Rightarrow>
                           (case py_shared C (take len (drop (ptr s) bytes)) of
                              None \<Rightarrow> put_object ascii s'
                            | Some obj \<Rightarrow> put_shared obj s'))))
      else if f = DLIS_FMT_OBNAME then
        (case dlis_obname C src of (n, nm) \<Rightarrow>
           and_then (consume bytes n s)
             (\<lambda>s. if chars < length (id' nm)
                  then Fail (undefined_behaviour ''identifier longer than id[255]'') s
                  else put_object (PyObname nm) s))
      else if f = DLIS_FMT_OBJREF then
        (case dlis_objref C src of (n, r) \<Rightarrow>
           and_then (consume bytes n s)
             (\<lambda>s. if chars < length (type r) \<or> chars < length (id' (name r))
                  then Fail (undefined_behaviour ''identifier longer than id[255]'') s
                  else put_object (PyObjref r) s))
      else if f = DLIS_FMT_ATTREF then
        (case dlis_attref C src of (n, r) \<Rightarrow>
           and_then (consume bytes n s)
             (\<lambda>s. if chars < length (atype r) \<or> chars < length (id' (aname r))
                    \<or> chars < length (label r)
                  then Fail (undefined_behaviour ''identifier longer than id[255]'') s
                  else put_object (PyAttref r) s))
      else if f = DLIS_FMT_DTIME then
        (case dlis_dtime C src of (n, d) \<Rightarrow>
           and_then (consume bytes n s)
             (\<lambda>s. case mem s (dst s) of
                    Some (PyObject_ptr p) \<Rightarrow>
                      and_then (Py_DECREF p s)
                        (\<lambda>s. if timestamp_valid C d
                             then (case py_new (timestamp C d) s of (q, s) \<Rightarrow>
                                     Ok (s\<lparr>mem := (mem s)(dst s \<mapsto> PyObject_ptr q),
                                           dst := dst s + sizeof_ptr\<rparr>))
                             else Fail error_already_set s)
                  | _ \<Rightarrow>
                      Fail (undefined_behaviour
                              ''Py_DECREF of a slot that holds no object pointer'') s))
      else
        (case dlis_packflen C [f] src of (src_skip, dst_skip) \<Rightarrow>
           and_then (assert_overflow bytes (ptr s) src_skip s)
             (\<lambda>s. Ok (s\<lparr>mem := (mem s)(dst s \<mapsto> Packed (dlis_packf C [f] src)),
                        dst := dst s + dst_skip,
                        ptr := ptr s + src_skip\<rparr>))))"

text \<open>\<open>for (auto* f = fmt; *f; ++f)\<close>\<close>

fun fields :: "catalog \<Rightarrow> string \<Rightarrow> fmtchar list \<Rightarrow> state \<Rightarrow> outcome" where
  "fields C bytes [] s = Ok s"
| "fields C bytes (f # fmt) s = and_then (field C bytes f s) (fields C bytes fmt)"

text \<open>
  The body of \<open>while (ptr < end)\<close> up to the test \<open>ptr != end\<close>: the frame number, the
  comparison with \<open>expected_frameno\<close> (whose branch is empty in the source: a comment
  \<open>TODO: warning\<close>), \<open>pre_fmt\<close>, the fields, \<open>expected_frameno = frameno + 1\<close>,
  \<open>post_fmt\<close>.
\<close>

definition frame ::
  "catalog \<Rightarrow> fmtchar list \<Rightarrow> fmtchar list \<Rightarrow> fmtchar list \<Rightarrow> string \<Rightarrow> state \<Rightarrow> outcome" where
  "frame C pre_fmt fmt post_fmt bytes s =
     (case dlis_uvari C (drop (ptr s) bytes) of (n, v) \<Rightarrow>
        let frameno = int v in
        and_then (consume bytes n s)
          (\<lambda>s. let s = (if frameno \<noteq> expected_frameno s then s else s);
                   src_skip = fst (dlis_packflen C pre_fmt (drop (ptr s) bytes)) in
               and_then (assert_overflow bytes (ptr s) src_skip s)
                 (\<lambda>s. and_then (fields C bytes fmt (s\<lparr>ptr := ptr s + src_skip\<rparr>))
                    (\<lambda>s. let s = s\<lparr>expected_frameno := frameno + 1\<rparr>;
                             src_skip = fst (dlis_packflen C post_fmt (drop (ptr s) bytes)) in
                         and_then (assert_overflow bytes (ptr s) src_skip s)
                           (\<lambda>s. Ok (s\<lparr>ptr := ptr s + src_skip\<rparr>))))))"

text \<open>
  \<open>while (ptr < end) { ...; if (ptr != end) throw dl::not_implemented(...); }\<close>. A pass
  that does not throw leaves \<open>ptr = end\<close>, which ends the loop.
\<close>

function frames ::
  "catalog \<Rightarrow> fmtchar list \<Rightarrow> fmtchar list \<Rightarrow> fmtchar list \<Rightarrow> string \<Rightarrow> state \<Rightarrow> outcome" where
  "frames C pre_fmt fmt post_fmt bytes s =
     (if ptr s < length bytes then
        (case frame C pre_fmt fmt post_fmt bytes s of
           Fail e s' \<Rightarrow> Fail e s'
         | Ok s' \<Rightarrow>
             if ptr s' \<noteq> length bytes
             then Fail (not_implemented ''multiple frames in one FDATA'') s'
             else frames C pre_fmt fmt post_fmt bytes s')
      else Ok s)"
  by pat_completeness auto
termination
  by (relation "measure (\<lambda>(C, pre_fmt, fmt, post_fmt, bytes, s). length bytes - ptr s)") auto

declare frames.simps [simp del]

text \<open>
  The body of \<open>for (auto i : indices)\<close> once the record is there: the test for
  encryption, the OBNAME in front of the frames (read with no check), the frames.
\<close>

definition fdata_record ::
  "catalog \<Rightarrow> fmtchar list \<Rightarrow> fmtchar list \<Rightarrow> fmtchar list \<Rightarrow> dl_record \<Rightarrow> state \<Rightarrow> outcome" where
  "fdata_record C pre_fmt fmt post_fmt record s =
     (if isencrypted record then Fail (not_implemented ''encrypted FDATA record'') s
      else
        let s = s\<lparr>ptr := 0\<rparr> in
        and_then (consume (data record) (fst (dlis_obname C (data record))) s)
          (frames C pre_fmt fmt post_fmt (data record)))"

text \<open>
  \<open>for (auto i : indices)\<close>. \<open>file.at(i, record)\<close> belongs to \<open>dl::stream\<close>, which is not
  part of these sources: the stream is a function that gives the record or what it throws.
\<close>

fun fdata_loop ::
  "catalog \<Rightarrow> fmtchar list \<Rightarrow> fmtchar list \<Rightarrow> fmtchar list \<Rightarrow> (int \<Rightarrow> error + dl_record)
     \<Rightarrow> int list \<Rightarrow> state \<Rightarrow> outcome" where
  "fdata_loop C pre_fmt fmt post_fmt file [] s = Ok s"
| "fdata_loop C pre_fmt fmt post_fmt file (i # indices) s =
     (case file i of
        Inl e \<Rightarrow> Fail e s
      | Inr record \<Rightarrow>
          and_then (fdata_record C pre_fmt fmt post_fmt record s)
            (fdata_loop C pre_fmt fmt post_fmt file indices))"

text \<open>
  \<open>read_fdata\<close>: \<open>dst\<close> starts at \<open>info.ptr\<close> and \<open>expected_frameno\<close> at 1. The state
  given carries the destination buffer, the heap and the warnings so far.
\<close>

definition read_fdata ::
  "catalog \<Rightarrow> fmtchar list \<Rightarrow> fmtchar list \<Rightarrow> fmtchar list \<Rightarrow> (int \<Rightarrow> error + dl_record)
     \<Rightarrow> int list \<Rightarrow> state \<Rightarrow> outcome" where
  "read_fdata C pre_fmt fmt post_fmt file indices s =
     fdata_loop C pre_fmt fmt post_fmt file indices (s\<lparr>dst := 0, expected_frameno := 1\<rparr>)"

section \<open>A catalog to run the decoder on\<close>

text \<open>
  The theorems below hold for every catalog. To run \<open>read_fdata\<close> on concrete records
  one catalog is written out.
\<close>

definition byte_at :: "string \<Rightarrow> nat \<Rightarrow> nat" where
  "byte_at bs i = (if i < length bs then of_char (bs ! i) else 0)"

definition big_endian :: "string \<Rightarrow> nat \<Rightarrow> nat \<Rightarrow> nat" where
  "big_endian bs off k = foldl (\<lambda>acc c. acc * 256 + of_char c) 0 (take k (drop off bs))"

definition rp66_uvari :: "string \<Rightarrow> nat \<times> nat" where
  \<comment> \<open>Modelled from the spec: \<open>dlis_uvari\<close> of the dlisio core library, which is not part
     of these sources: "a varint-encoded length/integer", a decoder that "consumes a cursor
     into a byte buffer and returns a typed value plus the number of bytes consumed". The
     layout is the UVARI of RP66 V1: 1, 2 or 4 bytes, told by the two top bits of the
     first byte.\<close>
  "rp66_uvari bs =
     (let b0 = byte_at bs 0 in
      if b0 < 128 then (1, b0)
      else if b0 < 192 then (2, (b0 - 128) * 256 + byte_at bs 1)
      else (4, (b0 - 192) * 16777216 + big_endian bs 1 3))"

definition rp66_ident :: "string \<Rightarrow> nat \<times> string" where
  \<comment> \<open>Modelled from the spec: \<open>dlis_ident\<close> (not part of these sources): "bounded
     identifier (length-prefixed, \<open>\<le>\<close>255 bytes)": one length byte, then the characters.\<close>
  "rp66_ident bs = (let n = byte_at bs 0 in (1 + n, take n (drop 1 bs)))"

definition rp66_obname :: "string \<Rightarrow> nat \<times> obname" where
  \<comment> \<open>Modelled from the spec: \<open>dlis_obname\<close> (not part of these sources): "OBNAME
     (origin: int32, copy: uint8, id: bounded text)"; the origin is a UVARI in RP66 V1.\<close>
  "rp66_obname bs =
     (case rp66_uvari bs of (n1, org) \<Rightarrow>
        case rp66_ident (drop (n1 + 1) bs) of (n2, idn) \<Rightarrow>
          (n1 + 1 + n2,
           \<lparr>origin = of_nat org, copy = of_nat (byte_at bs n1), id' = idn\<rparr>))"

definition rp66_objref :: "string \<Rightarrow> nat \<times> objref" where
  \<comment> \<open>Modelled from the spec: \<open>dlis_objref\<close> (not part of these sources): "OBJREF (type
     id + OBNAME)".\<close>
  "rp66_objref bs =
     (case rp66_ident bs of (n1, ty) \<Rightarrow>
        case rp66_obname (drop n1 bs) of (n2, nm) \<Rightarrow>
          (n1 + n2, \<lparr>type = ty, name = nm\<rparr>))"

definition rp66_attref :: "string \<Rightarrow> nat \<times> attref" where
  \<comment> \<open>Modelled from the spec: \<open>dlis_attref\<close> (not part of these sources): "ATTREF (type
     id + OBNAME + label id)".\<close>
  "rp66_attref bs =
     (case rp66_ident bs of (n1, ty) \<Rightarrow>
        case rp66_obname (drop n1 bs) of (n2, nm) \<Rightarrow>
          case rp66_ident (drop (n1 + n2) bs) of (n3, lb) \<Rightarrow>
            (n1 + n2 + n3, \<lparr>atype = ty, aname = nm, label = lb\<rparr>))"

definition rp66_dtime :: "string \<Rightarrow> nat \<times> datetime" where
  \<comment> \<open>Modelled from the spec: \<open>dlis_dtime\<close> (not part of these sources): "year, month,
     day, hour, minute, second, millisecond, plus a raw timezone code". The layout is
     the DTIME of RP66 V1: eight bytes, the time zone and the month sharing the second,
     the milliseconds in the last two.\<close>
  "rp66_dtime bs =
     (8, \<lparr>Y = int (byte_at bs 0),
          TZ = int (byte_at bs 1 div 16),
          M = int (byte_at bs 1 mod 16),
          D = int (byte_at bs 2),
          H = int (byte_at bs 3),
          MN = int (byte_at bs 4),
          S = int (byte_at bs 5),
          MS = int (big_endian bs 6 2)\<rparr>)"

fun rp66_size :: "fmtchar \<Rightarrow> string \<Rightarrow> nat \<times> nat" where
  \<comment> \<open>Modelled from the spec: the widths \<open>dlis_packflen\<close> (not part of these sources)
     reports for one code, source bytes and destination bytes: "fixed byte width known a
     priori" for the numeric codes, the RP66 V1 widths. The destination width of the
     codes \<open>read_fdata\<close> never packs (it handles them itself) is not used and is 0 here.\<close>
  "rp66_size DLIS_FMT_FSHORT bs = (2, 4)"
| "rp66_size DLIS_FMT_FSINGL bs = (4, 4)"
| "rp66_size DLIS_FMT_FSING1 bs = (8, 0)"
| "rp66_size DLIS_FMT_FSING2 bs = (12, 0)"
| "rp66_size DLIS_FMT_ISINGL bs = (4, 4)"
| "rp66_size DLIS_FMT_VSINGL bs = (4, 4)"
| "rp66_size DLIS_FMT_FDOUBL bs = (8, 8)"
| "rp66_size DLIS_FMT_FDOUB1 bs = (16, 0)"
| "rp66_size DLIS_FMT_FDOUB2 bs = (24, 0)"
| "rp66_size DLIS_FMT_CSINGL bs = (8, 8)"
| "rp66_size DLIS_FMT_CDOUBL bs = (16, 16)"
| "rp66_size DLIS_FMT_SSHORT bs = (1, 1)"
| "rp66_size DLIS_FMT_SNORM bs = (2, 2)"
| "rp66_size DLIS_FMT_SLONG bs = (4, 4)"
| "rp66_size DLIS_FMT_USHORT bs = (1, 1)"
| "rp66_size DLIS_FMT_UNORM bs = (2, 2)"
| "rp66_size DLIS_FMT_ULONG bs = (4, 4)"
| "rp66_size DLIS_FMT_UVARI bs = (fst (rp66_uvari bs), 4)"
| "rp66_size DLIS_FMT_IDENT bs = (fst (rp66_ident bs), 0)"
| "rp66_size DLIS_FMT_ASCII bs = (fst (rp66_uvari bs) + snd (rp66_uvari bs), 0)"
| "rp66_size DLIS_FMT_DTIME bs = (8, 0)"
| "rp66_size DLIS_FMT_ORIGIN bs = (fst (rp66_uvari bs), 4)"
| "rp66_size DLIS_FMT_OBNAME bs = (fst (rp66_obname bs), 0)"
| "rp66_size DLIS_FMT_OBJREF bs = (fst (rp66_objref bs), 0)"
| "rp66_size DLIS_FMT_ATTREF bs = (fst (rp66_attref bs), 0)"
| "rp66_size DLIS_FMT_STATUS bs = (1, 1)"
| "rp66_size DLIS_FMT_UNITS bs = (fst (rp66_ident bs), 0)"

fun rp66_packflen :: "fmtchar list \<Rightarrow> string \<Rightarrow> nat \<times> nat" where
  "rp66_packflen [] bs = (0, 0)"
| "rp66_packflen (f # fmt) bs =
     (case rp66_size f bs of (a, b) \<Rightarrow>
        case rp66_packflen fmt (drop a bs) of (c, d) \<Rightarrow> (a + c, b + d))"

fun rp66_packf :: "fmtchar list \<Rightarrow> string \<Rightarrow> string" where
  \<comment> \<open>Modelled from the spec: \<open>dlis_packf\<close> (not part of these sources): "decode source
     bytes, compute destination byte width, copy or convert into an inline scalar slot".
     Here the big-endian source bytes in the byte order of the host (little-endian); the
     numeric conversions (of the vendor floats, of a UVARI to an \<open>int32\<close>) are left out.\<close>
  "rp66_packf [] bs = []"
| "rp66_packf (f # fmt) bs =
     rev (take (fst (rp66_size f bs)) bs) @ rp66_packf fmt (drop (fst (rp66_size f bs)) bs)"

definition days_in_month :: "int \<Rightarrow> int \<Rightarrow> int" where
  "days_in_month y m =
     (if m = 2 then (if y mod 4 = 0 \<and> (0 < y mod 100 \<or> y mod 400 = 0) then 29 else 28)
      else if m = 4 \<or> m = 6 \<or> m = 9 \<or> m = 11 then 30 else 31)"

definition cpython_datetime_valid ::
  "int \<Rightarrow> int \<Rightarrow> int \<Rightarrow> int \<Rightarrow> int \<Rightarrow> int \<Rightarrow> int \<Rightarrow> bool" where
  \<comment> \<open>The argument checks of CPython's \<open>datetime\<close> constructor, for which
     \<open>PyDateTime_FromDateAndTime\<close> returns \<open>NULL\<close> with a \<open>ValueError\<close> set.\<close>
  "cpython_datetime_valid y m d h mn sec us =
     (1 \<le> y \<and> y \<le> 9999 \<and> 1 \<le> m \<and> m \<le> 12 \<and> 1 \<le> d \<and> d \<le> days_in_month y m
      \<and> 0 \<le> h \<and> h < 24 \<and> 0 \<le> mn \<and> mn < 60 \<and> 0 \<le> sec \<and> sec < 60
      \<and> 0 \<le> us \<and> us < 1000000)"

fun utf8 :: "nat list \<Rightarrow> bool" where
  \<comment> \<open>Well-formed UTF-8, by the values of the bytes.\<close>
  "utf8 [] = True"
| "utf8 [a] = (a < 0x80)"
| "utf8 [a, b] =
     (if a < 0x80 then utf8 [b]
      else 0xC2 \<le> a \<and> a < 0xE0 \<and> 0x80 \<le> b \<and> b < 0xC0)"
| "utf8 [a, b, c] =
     (if a < 0x80 then utf8 [b, c]
      else if 0xC2 \<le> a \<and> a < 0xE0 then 0x80 \<le> b \<and> b < 0xC0 \<and> utf8 [c]
      else 0xE0 \<le> a \<and> a < 0xF0 \<and> (if a = 0xE0 then 0xA0 else 0x80) \<le> b
           \<and> b < (if a = 0xED then 0xA0 else 0xC0) \<and> 0x80 \<le> c \<and> c < 0xC0)"
| "utf8 (a # b # c # d # es) =
     (if a < 0x80 then utf8 (b # c # d # es)
      else if 0xC2 \<le> a \<and> a < 0xE0 then 0x80 \<le> b \<and> b < 0xC0 \<and> utf8 (c # d # es)
      else if 0xE0 \<le> a \<and> a < 0xF0
      then (if a = 0xE0 then 0xA0 else 0x80) \<le> b \<and> b < (if a = 0xED then 0xA0 else 0xC0)
           \<and> 0x80 \<le> c \<and> c < 0xC0 \<and> utf8 (d # es)
      else 0xF0 \<le> a \<and> a < 0xF5 \<and> (if a = 0xF0 then 0x90 else 0x80) \<le> b
           \<and> b < (if a = 0xF4 then 0x90 else 0xC0) \<and> 0x80 \<le> c \<and> c < 0xC0
           \<and> 0x80 \<le> d \<and> d < 0xC0 \<and> utf8 es)"

definition utf8_str :: "string \<Rightarrow> error + pyobject" where
  \<comment> \<open>\<open>py::str(ptr, len)\<close> decodes UTF-8: the string object of bytes that are UTF-8,
     and the \<open>std::runtime_error\<close> of the constructor for bytes that are not.\<close>
  "utf8_str cs =
     (if utf8 (map of_char cs) then Inr (PyStr cs)
      else Inl (runtime_error ''Could not allocate string object!''))"


definition cpython_shared :: "string \<Rightarrow> nat option" where
  "cpython_shared cs =
     (case map of_char cs of
        [] \<Rightarrow> Some 1
      | [a] \<Rightarrow> if a < (128 :: nat) then Some (2 + a) else None
      | [a, b] \<Rightarrow>
          if (a = 194 \<or> a = 195) \<and> 128 \<le> b \<and> b < 192
          then Some (2 + ((a - 192) * 64 + (b - 128))) else None
      | _ \<Rightarrow> None)"


definition rp66 :: catalog where
  "rp66 =
     \<lparr>dlis_uvari = rp66_uvari,
      dlis_ident = rp66_ident,
      dlis_obname = rp66_obname,
      dlis_objref = rp66_objref,
      dlis_attref = rp66_attref,
      dlis_dtime = rp66_dtime,
      dlis_fsing1 = (\<lambda>bs. (8, of_nat (big_endian bs 0 4), of_nat (big_endian bs 4 4))),
      dlis_fsing2 = (\<lambda>bs. (12, of_nat (big_endian bs 0 4), of_nat (big_endian bs 4 4),
                            of_nat (big_endian bs 8 4))),
      dlis_fdoub1 = (\<lambda>bs. (16, of_nat (big_endian bs 0 8), of_nat (big_endian bs 8 8))),
      dlis_fdoub2 = (\<lambda>bs. (24, of_nat (big_endian bs 0 8), of_nat (big_endian bs 8 8),
                            of_nat (big_endian bs 16 8))),
      dlis_packflen = rp66_packflen,
      dlis_packf = rp66_packf,
      DLIS_YEAR_ZERO = 1900,
      PyDateTime_valid = cpython_datetime_valid,
      py_str = utf8_str,
      py_shared = cpython_shared\<rparr>"

text \<open>
  A destination buffer as numpy hands it over: every object slot points to \<open>None\<close>
  (at address 0 of the heap, with references to spare). Its heap holds \<open>None\<close> only;
  it serves the examples that make no string.
\<close>

definition none_buffer :: state where
  "none_buffer =
     \<lparr>mem = (\<lambda>off. Some (PyObject_ptr 0)), dst = 0, ptr = 0, expected_frameno = 1,
      heap = [(100, PyNone)], warnings = []\<rparr>"


definition stream_of :: "dl_record list \<Rightarrow> int \<Rightarrow> error + dl_record" where
  \<comment> \<open>A stream over the records given: \<open>file.at(i, record)\<close> for the index \<open>i\<close>.\<close>
  "stream_of rs i =
     (if 0 \<le> i \<and> nat i < length rs then Inr (rs ! nat i)
      else Inl (stream_error ''no such record''))"

text \<open>
  The OBNAME in front of every example record: origin 1, copy 0, identifier \<open>F\<close>.
\<close>

definition frame_name :: string where
  "frame_name = [CHR 0x01, CHR 0x00, CHR 0x01, CHR ''F'']"

section \<open>Example records\<close>

text \<open>
  The example of the spec: the format \<open>fd\<close> (FSINGL, FDOUBL) on a record with frame
  number 1, the float 3.5 and the double 2.0; a second record with frame number 2 and
  the values 1.0 and 1.0.
\<close>

definition fd1 :: dl_record where
  "fd1 = \<lparr>data = frame_name @ [CHR 0x01, CHR 0x40, CHR 0x60, CHR 0x00, CHR 0x00,
             CHR 0x40, CHR 0x00, CHR 0x00, CHR 0x00, CHR 0x00, CHR 0x00, CHR 0x00, CHR 0x00],
          isencrypted = False\<rparr>"

definition fd2 :: dl_record where
  "fd2 = \<lparr>data = frame_name @ [CHR 0x02, CHR 0x3F, CHR 0x80, CHR 0x00, CHR 0x00,
             CHR 0x3F, CHR 0xF0, CHR 0x00, CHR 0x00, CHR 0x00, CHR 0x00, CHR 0x00, CHR 0x00],
          isencrypted = False\<rparr>"

text \<open>The buffer after the row of \<open>fd1\<close> alone.\<close>

definition fd_row1 :: state where
  "fd_row1 =
     \<lparr>mem = (\<lambda>off. Some (PyObject_ptr 0))
        (0 \<mapsto> Packed [CHR 0x00, CHR 0x00, CHR 0x60, CHR 0x40],
         4 \<mapsto> Packed [CHR 0x00, CHR 0x00, CHR 0x00, CHR 0x00, CHR 0x00, CHR 0x00, CHR 0x00,
                      CHR 0x40]),
      dst = 12, ptr = 17, expected_frameno = 2, heap = [(100, PyNone)], warnings = []\<rparr>"

text \<open>A record with two frames of one FSINGL each, numbered 1 and 2.\<close>

definition two_frames :: dl_record where
  "two_frames =
     \<lparr>data = frame_name @ [CHR 0x01, CHR 0x40, CHR 0x60, CHR 0x00, CHR 0x00,
                           CHR 0x02, CHR 0x3F, CHR 0x80, CHR 0x00, CHR 0x00],
      isencrypted = False\<rparr>"



definition dtime_2001 :: string where
  "dtime_2001 = [CHR 0x65, CHR 0x02, CHR 0x03, CHR 0x04, CHR 0x05, CHR 0x06, CHR 0x00, CHR 0x07]"


text \<open>A record with frame number 1 that ends after three of the eight bytes of a DTIME.\<close>

definition truncated_record :: dl_record where
  "truncated_record =
     \<lparr>data = frame_name @ [CHR 0x01, CHR 0x57, CHR 0x14, CHR 0x13], isencrypted = False\<rparr>"

text \<open>A record with frame number 5 and the float 3.5.\<close>

definition frame5_record :: dl_record where
  "frame5_record =
     \<lparr>data = frame_name @ [CHR 0x05, CHR 0x40, CHR 0x60, CHR 0x00, CHR 0x00],
      isencrypted = False\<rparr>"


section \<open>Outcomes\<close>

text \<open>The state an outcome ends in.\<close>

fun state_of :: "outcome \<Rightarrow> state" where
  "state_of (Ok s) = s"
| "state_of (Fail e s) = s"

text \<open>The exception an outcome ends with, if any; undefined behaviour is none.\<close>

fun thrown :: "outcome \<Rightarrow> error option" where
  "thrown (Ok s) = None"
| "thrown (Fail (undefined_behaviour m) s) = None"
| "thrown (Fail e s) = Some e"

fun is_not_implemented :: "error \<Rightarrow> bool" where
  "is_not_implemented (not_implemented m) = True"
| "is_not_implemented e = False"

text \<open>The codes whose value \<open>read_fdata\<close> stores as a pointer to a Python object.\<close>

definition heap_object :: "fmtchar \<Rightarrow> bool" where
  "heap_object f =
     (f = DLIS_FMT_FSING1 \<or> f = DLIS_FMT_FSING2 \<or> f = DLIS_FMT_FDOUB1 \<or> f = DLIS_FMT_FDOUB2
      \<or> f = DLIS_FMT_ASCII \<or> f = DLIS_FMT_OBNAME \<or> f = DLIS_FMT_OBJREF
      \<or> f = DLIS_FMT_ATTREF \<or> f = DLIS_FMT_DTIME)"

section \<open>Rows, as the spec describes them\<close>

text \<open>
  The value of one field, as the spec's Row Field Dispatcher hands it to the Slot
  Writer: inline data for the slot, an object to be made, or an object the interpreter
  shares (by its address).
\<close>

datatype slot = Inline cell | Fresh pyobject | Shared nat













section \<open>Example rows\<close>








section \<open>Properties of fingerprint\<close>

lemma sint_nonneg_uint: "0 \<le> sint (w :: 32 word) \<Longrightarrow> uint w = sint w"
proof -
  assume a: "0 \<le> sint w"
  have "\<not> bit w 31" using bit_last_iff [of w] a by simp
  then have nb: "\<not> bit (uint w) 31" by (simp add: bit_uint_iff)
  then have "signed_take_bit 31 (uint w) = take_bit 31 (uint w)"
    by (simp add: signed_take_bit_eq_if_positive)
  then have "sint w = take_bit 31 (uint w)" by (simp add: sint_uint)
  moreover have "take_bit 31 (uint w) = take_bit 32 (uint w)"
  proof (rule bit_eqI)
    fix n :: nat
    have "n < 32 \<longleftrightarrow> n < 31 \<or> n = 31" by arith
    then show "bit (take_bit 31 (uint w)) n \<longleftrightarrow> bit (take_bit 32 (uint w)) n"
      using nb by (auto simp: bit_take_bit_iff)
  qed
  moreover have "take_bit 32 (uint w) = uint w"
    by (simp add: take_bit_int_eq_self_iff) (use uint_lt2p [of w] in simp)
  ultimately show ?thesis by simp
qed

text \<open>
  C10. \<open>fingerprint\<close> throws \<open>std::invalid_argument\<close> exactly when \<open>copy\<close> is below 0
  or above 255; otherwise it returns the fingerprint of the OBJREF made of the four
  arguments, whose copy number is the given one. The function is pure: it has no state
  to change.
\<close>

theorem fingerprint_copy_range:
  "fingerprint fp ty ident org cp =
     (if sint cp < 0 \<or> 255 < sint cp
      then Inl (invalid_argument ''Invalid argument, copy out of range'')
      else Inr (fp \<lparr>type = ty, name = \<lparr>origin = org, copy = ucast cp, id' = ident\<rparr>\<rparr>))
   \<and> (isl (fingerprint fp ty ident org cp) = (sint cp < 0 \<or> 255 < sint cp))
   \<and> (if sint cp < 0 \<or> 255 < sint cp then True else uint (ucast cp :: 8 word) = sint cp)"
proof -
  have "uint (ucast cp :: 8 word) = sint cp" if "0 \<le> sint cp" "sint cp \<le> 255"
    using that sint_nonneg_uint [of cp] by (simp add: unsigned_ucast_eq take_bit_int_eq_self_iff)
  then show ?thesis
    by (auto simp: fingerprint_def Let_def)
qed

theorem fingerprint_copy_range_witness:
  "fingerprint (\<lambda>r. type r @ ''-'' @ id' (name r)) ''CHANNEL'' ''TDEP'' 1 256
     = Inl (invalid_argument ''Invalid argument, copy out of range'')
   \<and> fingerprint (\<lambda>r. type r @ ''-'' @ id' (name r)) ''CHANNEL'' ''TDEP'' 1 (- 1)
     = Inl (invalid_argument ''Invalid argument, copy out of range'')
   \<and> fingerprint (\<lambda>r. type r @ ''-'' @ id' (name r)) ''CHANNEL'' ''TDEP'' 1 7
     = Inr ''CHANNEL-TDEP''"
  using fingerprint_copy_range [of "\<lambda>r. type r @ ''-'' @ id' (name r)" "''CHANNEL''" "''TDEP''" 1 256]
    fingerprint_copy_range [of "\<lambda>r. type r @ ''-'' @ id' (name r)" "''CHANNEL''" "''TDEP''" 1 "- 1"]
    fingerprint_copy_range [of "\<lambda>r. type r @ ''-'' @ id' (name r)" "''CHANNEL''" "''TDEP''" 1 7]
  by simp

section \<open>Sequencing and loops\<close>

text \<open>The definitions a run on a concrete record unfolds.\<close>

lemmas run_defs =
  read_fdata_def fdata_record_def stream_of_def none_buffer_def frame_name_def
  rp66_def rp66_obname_def rp66_uvari_def rp66_ident_def rp66_dtime_def byte_at_def
  big_endian_def consume_def assert_overflow_def frame_def field_def put_object_def
  swap_pointer_def py_new_def Py_DECREF_def inc_ref_def timestamp_def timestamp_valid_def
  dlis_year_def cpython_datetime_valid_def days_in_month_def sizeof_ptr_def utf8_str_def
  Let_def frames.simps

lemma and_then_Ok: "and_then r f = Ok s' \<longleftrightarrow> (\<exists>s1. r = Ok s1 \<and> f s1 = Ok s')"
  by (cases r) simp_all

lemma and_then_assoc: "and_then (and_then r f) g = and_then r (\<lambda>s. and_then (f s) g)"
  by (cases r) simp_all

lemma fdata_loop_append:
  "fdata_loop C pre_fmt fmt post_fmt file (xs @ ys) s =
     and_then (fdata_loop C pre_fmt fmt post_fmt file xs s) (fdata_loop C pre_fmt fmt post_fmt file ys)"
proof (induction xs arbitrary: s)
  case Nil
  show ?case by simp
next
  case (Cons i xs)
  show ?case
  proof (cases "file i")
    case (Inl e)
    then show ?thesis by simp
  next
    case (Inr r)
    then show ?thesis
      by (cases "fdata_record C pre_fmt fmt post_fmt r s") (simp_all add: Cons.IH)
  qed
qed

lemma frames_exhausted:
  "\<not> ptr s < length bytes \<Longrightarrow> frames C pre_fmt fmt post_fmt bytes s = Ok s"
  by (subst frames.simps) simp


lemma frames_second_row:
  assumes "ptr s < length bytes" and "frame C pre_fmt fmt post_fmt bytes s = Ok s'"
    and "ptr s' \<noteq> length bytes"
  shows "frames C pre_fmt fmt post_fmt bytes s =
           Fail (not_implemented ''multiple frames in one FDATA'') s'"
  using assms by (subst frames.simps) simp


text \<open>
  C4. When the records before have been decoded, and the cursor of the next record is
  short of its end after one row (frame number, fields, \<open>post_fmt\<close>), the whole call
  fails with \<open>dl::not_implemented\<close>, whatever indices follow; the state it fails in is
  the state right after that row, so no second row of the record has been decoded.
\<close>

theorem multiple_frames_not_implemented:
  assumes "read_fdata C pre_fmt fmt post_fmt file before s = Ok s1"
    and "file i = Inr record" and "\<not> isencrypted record"
    and "consume (data record) (fst (dlis_obname C (data record))) (s1\<lparr>ptr := 0\<rparr>) = Ok s2"
    and "ptr s2 < length (data record)"
    and "frame C pre_fmt fmt post_fmt (data record) s2 = Ok s3"
    and "ptr s3 \<noteq> length (data record)"
  shows "read_fdata C pre_fmt fmt post_fmt file (before @ i # after) s =
           Fail (not_implemented ''multiple frames in one FDATA'') s3"
proof -
  have "frames C pre_fmt fmt post_fmt (data record) s2 =
          Fail (not_implemented ''multiple frames in one FDATA'') s3"
    using assms(5-7) by (rule frames_second_row)
  then have "fdata_record C pre_fmt fmt post_fmt record s1 =
          Fail (not_implemented ''multiple frames in one FDATA'') s3"
    using assms(3,4) by (simp add: fdata_record_def)
  then show ?thesis
    using assms(1,2) by (simp add: read_fdata_def fdata_loop_append)
qed

theorem multiple_frames_not_implemented_witness:
  "read_fdata rp66 [] [DLIS_FMT_FSINGL] [] (stream_of [two_frames]) [0] none_buffer
     = Fail (not_implemented ''multiple frames in one FDATA'')
         (none_buffer\<lparr>mem := (mem none_buffer)(0 \<mapsto> Packed [CHR 0x00, CHR 0x00, CHR 0x60, CHR 0x40]),
                       dst := 4, ptr := 9, expected_frameno := 2\<rparr>)"
proof -
  let ?s3 = "none_buffer\<lparr>mem := (mem none_buffer)(0 \<mapsto> Packed [CHR 0x00, CHR 0x00, CHR 0x60, CHR 0x40]),
                       dst := 4, ptr := 9, expected_frameno := 2\<rparr>"
  have a: "read_fdata rp66 [] [DLIS_FMT_FSINGL] [] (stream_of [two_frames]) [] none_buffer
             = Ok none_buffer"
    by (simp add: read_fdata_def none_buffer_def)
  have b: "stream_of [two_frames] 0 = Inr two_frames"
    by (simp add: stream_of_def)
  have c: "\<not> isencrypted two_frames"
    by (simp add: two_frames_def)
  have d: "consume (data two_frames) (fst (dlis_obname rp66 (data two_frames)))
             (none_buffer\<lparr>ptr := 0\<rparr>) = Ok (none_buffer\<lparr>ptr := 4\<rparr>)"
    by (simp add: run_defs two_frames_def)
  have e: "ptr (none_buffer\<lparr>ptr := 4\<rparr>) < length (data two_frames)"
    by (simp add: two_frames_def frame_name_def)
  have f: "frame rp66 [] [DLIS_FMT_FSINGL] [] (data two_frames) (none_buffer\<lparr>ptr := 4\<rparr>) = Ok ?s3"
    by (simp add: run_defs two_frames_def)
  have g: "ptr ?s3 \<noteq> length (data two_frames)"
    by (simp add: two_frames_def frame_name_def)
  show ?thesis
    using multiple_frames_not_implemented [OF a b c d e f g, of "[]"] by simp
qed

text \<open>
  C6, as amended. A record whose encrypted flag is set makes the whole call fail with
  \<open>dl::not_implemented\<close> and the message \<open>encrypted FDATA record\<close>: the exception
  class of the multiple-frames failure. The state it fails in is the state the records
  before have left: nothing of the record is decoded, nothing written for it.
\<close>

theorem encrypted_record_not_implemented:
  assumes "read_fdata C pre_fmt fmt post_fmt file before s = Ok s1"
    and "file i = Inr record" and "isencrypted record"
  shows "read_fdata C pre_fmt fmt post_fmt file (before @ i # after) s =
           Fail (not_implemented ''encrypted FDATA record'') s1"
  using assms by (simp add: read_fdata_def fdata_loop_append fdata_record_def)

theorem encrypted_record_not_implemented_witness:
  "read_fdata rp66 [] [DLIS_FMT_FSINGL, DLIS_FMT_FDOUBL] []
     (stream_of [fd1, fd2\<lparr>isencrypted := True\<rparr>, fd2]) [0, 1, 2] none_buffer
     = Fail (not_implemented ''encrypted FDATA record'') fd_row1"
proof -
  let ?file = "stream_of [fd1, fd2\<lparr>isencrypted := True\<rparr>, fd2]"
  have a: "read_fdata rp66 [] [DLIS_FMT_FSINGL, DLIS_FMT_FDOUBL] [] ?file [0] none_buffer
             = Ok fd_row1"
    by (simp add: run_defs fd1_def fd_row1_def)
  have b: "?file 1 = Inr (fd2\<lparr>isencrypted := True\<rparr>)"
    by (simp add: stream_of_def)
  have c: "isencrypted (fd2\<lparr>isencrypted := True\<rparr>)"
    by simp
  show ?thesis
    using encrypted_record_not_implemented [OF a b c, of "[2]"] by simp
qed

text \<open>
  C6 as stated fails: the failure of an encrypted record is of the same kind as the
  failure of a record with several frames, \<open>dl::not_implemented\<close>; only the messages
  differ.
\<close>

theorem encrypted_record_counterexample:
  "thrown (read_fdata rp66 [] [DLIS_FMT_FSINGL, DLIS_FMT_FDOUBL] []
             (stream_of [fd1\<lparr>isencrypted := True\<rparr>]) [0] none_buffer)
     = Some (not_implemented ''encrypted FDATA record'')
   \<and> thrown (read_fdata rp66 [] [DLIS_FMT_FSINGL] [] (stream_of [two_frames]) [0] none_buffer)
     = Some (not_implemented ''multiple frames in one FDATA'')
   \<and> is_not_implemented (not_implemented ''encrypted FDATA record'')"
  by (simp add: run_defs two_frames_def fd1_def)

section \<open>Object slots\<close>






section \<open>Bounds checks\<close>

text \<open>
  The generic path checks before it decodes: a field of a code that is not handled by
  a branch of its own, whose source bytes would pass the record's end, fails with
  \<open>std::runtime_error\<close> in the state it started from.
\<close>

lemma generic_field_checked:
  assumes "\<not> heap_object f" and "f \<noteq> DLIS_FMT_IDENT" and "f \<noteq> DLIS_FMT_UNITS"
    and "length bytes < ptr s + fst (dlis_packflen C [f] (drop (ptr s) bytes))"
  shows "field C bytes f s = Fail (runtime_error ''corrupted record: fmtstr would read past end'') s"
  using assms by (auto simp: field_def heap_object_def assert_overflow_def Let_def split: prod.splits)

text \<open>
  C2. The code at a failing input: \<open>truncated_record\<close> ends after three of the eight
  bytes of its DTIME. The DTIME branch calls \<open>dlis_dtime\<close> with no
  \<open>assert_overflow\<close> before it: the decode reads past the record's end, and no
  \<open>std::runtime_error\<close> comes before that read (the source goes on to release and
  overwrite the slot; only the check of \<open>post_fmt\<close> behind the fields can throw one,
  after the write). The same record under the format FDOUBL, which takes the generic
  path, fails with the error the claim names before anything is read.
\<close>

theorem truncated_dtime_is_not_corrupt_record:
  "read_fdata rp66 [] [DLIS_FMT_DTIME] [] (stream_of [truncated_record]) [0] none_buffer
     = Fail (undefined_behaviour ''read past the end of the record'') (none_buffer\<lparr>ptr := 5\<rparr>)
   \<and> read_fdata rp66 [] [DLIS_FMT_FDOUBL] [] (stream_of [truncated_record]) [0] none_buffer
     = Fail (runtime_error ''corrupted record: fmtstr would read past end'')
         (none_buffer\<lparr>ptr := 5\<rparr>)"
  by (simp add: run_defs truncated_record_def)

text \<open>
  C3. The code at failing inputs: the branches for FSING1 and ASCII, and the OBNAME in
  front of the frames, read with no check before the primitive; an FSINGL field on the
  same three bytes is checked.
\<close>

theorem unchecked_primitive_reads:
  "field rp66 [CHR 0x40, CHR 0x60, CHR 0x00] DLIS_FMT_FSING1 none_buffer
     = Fail (undefined_behaviour ''read past the end of the record'') none_buffer
   \<and> field rp66 [CHR 0x05, CHR ''a'', CHR ''b''] DLIS_FMT_ASCII none_buffer
     = Fail (undefined_behaviour ''read past the end of the record'') (none_buffer\<lparr>ptr := 1\<rparr>)
   \<and> fdata_record rp66 [] [DLIS_FMT_FSING1] [] \<lparr>data = [CHR 0x01, CHR 0x00], isencrypted = False\<rparr>
       none_buffer
     = Fail (undefined_behaviour ''read past the end of the record'') none_buffer
   \<and> field rp66 [CHR 0x40, CHR 0x60, CHR 0x00] DLIS_FMT_FSINGL none_buffer
     = Fail (runtime_error ''corrupted record: fmtstr would read past end'') none_buffer"
  by (simp add: run_defs)

section \<open>Frame numbers and warnings\<close>

text \<open>
  \<open>read_fdata\<close> never gives the interpreter a warning, whatever it decodes and however
  it ends; a frame that decodes sets \<open>expected_frameno\<close> to its number plus 1.
\<close>

lemma and_then_warnings:
  assumes "warnings (state_of r) = w" and "\<And>t. warnings t = w \<Longrightarrow> warnings (state_of (f t)) = w"
  shows "warnings (state_of (and_then r f)) = w"
  using assms by (cases r) simp_all

lemma consume_warnings: "warnings (state_of (consume bytes n s)) = warnings s"
  by (simp add: consume_def)

lemma Py_DECREF_warnings: "warnings (state_of (Py_DECREF p s)) = warnings s"
  by (simp add: Py_DECREF_def)

lemma assert_overflow_warnings: "warnings (state_of (assert_overflow bytes p n s)) = warnings s"
  by (simp add: assert_overflow_def)

lemma put_object_warnings: "warnings (state_of (put_object v s)) = warnings s"
  unfolding put_object_def py_new_def swap_pointer_def
  by (auto simp: inc_ref_def Py_DECREF_def split: option.splits cell.splits)

lemma put_shared_warnings: "warnings (state_of (put_shared obj s)) = warnings s"
  unfolding put_shared_def Py_INCREF_def swap_pointer_def
  by (auto simp: inc_ref_def Py_DECREF_def split: option.splits cell.splits)

lemma field_warnings: "warnings (state_of (field C bytes f s)) = warnings s"
  unfolding field_def Let_def
  by (auto split: prod.splits sum.splits option.splits cell.splits
      intro!: and_then_warnings
      simp: consume_warnings Py_DECREF_warnings assert_overflow_warnings put_object_warnings
        put_shared_warnings py_new_def)

lemma fields_warnings: "warnings (state_of (fields C bytes fmt s)) = warnings s"
  by (induction fmt arbitrary: s) (auto intro!: and_then_warnings simp: field_warnings)

lemma frame_warnings:
  "warnings (state_of (frame C pre_fmt fmt post_fmt bytes s)) = warnings s"
  unfolding frame_def Let_def
  by (auto split: prod.splits intro!: and_then_warnings
      simp: consume_warnings assert_overflow_warnings fields_warnings)

lemma frames_warnings:
  "warnings (state_of (frames C pre_fmt fmt post_fmt bytes s)) = warnings s"
proof (induction C pre_fmt fmt post_fmt bytes s rule: frames.induct)
  case (1 C pre_fmt fmt post_fmt bytes s)
  show ?case
  proof (cases "frame C pre_fmt fmt post_fmt bytes s")
    case (Ok s')
    then have w: "warnings s' = warnings s"
      using frame_warnings [of C pre_fmt fmt post_fmt bytes s] by simp
    show ?thesis
      using Ok w "1.IH" [of s'] by (subst frames.simps) simp
  next
    case (Fail e s')
    then have "warnings s' = warnings s"
      using frame_warnings [of C pre_fmt fmt post_fmt bytes s] by simp
    then show ?thesis
      using Fail by (subst frames.simps) simp
  qed
qed

lemma fdata_record_warnings:
  "warnings (state_of (fdata_record C pre_fmt fmt post_fmt r s)) = warnings s"
  unfolding fdata_record_def Let_def
  by (auto intro!: and_then_warnings simp: consume_warnings frames_warnings)

lemma fdata_loop_warnings:
  "warnings (state_of (fdata_loop C pre_fmt fmt post_fmt file indices s)) = warnings s"
  by (induction indices arbitrary: s)
    (auto split: sum.splits intro!: and_then_warnings simp: fdata_record_warnings)

lemma read_fdata_warnings:
  "warnings (state_of (read_fdata C pre_fmt fmt post_fmt file indices s)) = warnings s"
  by (simp add: read_fdata_def fdata_loop_warnings)

lemma frame_expected_frameno:
  assumes "frame C pre_fmt fmt post_fmt bytes s = Ok s'"
  shows "expected_frameno s' = int (snd (dlis_uvari C (drop (ptr s) bytes))) + 1"
  using assms unfolding frame_def Let_def
  by (auto simp: and_then_Ok assert_overflow_def split: prod.splits if_splits)

text \<open>
  C5. The code at a failing input: \<open>frame5_record\<close> has frame number 5 where 1 is
  expected. The row is decoded, \<open>expected_frameno\<close> becomes 6, and no warning is
  given: the branch of the comparison is empty in the source (\<open>TODO: warning\<close>).
\<close>

theorem frame_number_gap_is_silent:
  "read_fdata rp66 [] [DLIS_FMT_FSINGL] [] (stream_of [frame5_record]) [0] none_buffer
     = Ok (none_buffer\<lparr>mem := (mem none_buffer)(0 \<mapsto> Packed [CHR 0x00, CHR 0x00, CHR 0x60, CHR 0x40]),
                       dst := 4, ptr := 9, expected_frameno := 6\<rparr>)
   \<and> warnings (none_buffer\<lparr>mem := (mem none_buffer)(0 \<mapsto> Packed [CHR 0x00, CHR 0x00, CHR 0x60, CHR 0x40]),
                       dst := 4, ptr := 9, expected_frameno := 6\<rparr>) = []"
  by (simp add: run_defs frame5_record_def)

section \<open>The decoder against the rows of the spec\<close>

text \<open>
  A field that has a value by \<open>field_slot\<close>, within the record and on a slot that is
  ready, is decoded by \<open>field\<close> to exactly the write \<open>write_slot\<close> describes; so
  for the fields of a row, for a frame, for a record that holds one row, and for the
  loop over the records.
\<close>

text \<open>The loop over \<open>tmp\<close> of the branch for IDENT and UNITS, as a list.\<close>

lemma ident_units_fold:
  assumes "k \<le> length tmp" and "length tmp \<le> n"
  shows "fold (\<lambda>i buf. buf[i := widen (tmp ! i)]) [0..<k] (replicate n 0)
         = map widen (take k tmp) @ replicate (n - k) 0"
  using assms
proof (induction k)
  case 0
  show ?case by simp
next
  case (Suc k)
  then have k: "k < length tmp" "k < n" by simp_all
  have "n - k = Suc (n - Suc k)" using k by simp
  then have r: "replicate (n - k) (0 :: 32 word) = 0 # replicate (n - Suc k) 0"
    by (simp only: replicate_Suc)
  have "fold (\<lambda>i buf. buf[i := widen (tmp ! i)]) [0..<Suc k] (replicate n 0)
        = (map widen (take k tmp) @ replicate (n - k) 0)[k := widen (tmp ! k)]"
    using Suc by simp
  also have "\<dots> = map widen (take k tmp) @ (widen (tmp ! k) # replicate (n - Suc k) 0)"
    using k by (simp add: list_update_append r)
  also have "\<dots> = map widen (take (Suc k) tmp) @ replicate (n - Suc k) 0"
    using k by (simp add: take_Suc_conv_app_nth)
  finally show ?case .
qed

lemma ident_units_eq:
  "length tmp \<le> chars \<Longrightarrow>
     ident_units tmp = map widen tmp @ replicate (chars - length tmp) 0"
  using ident_units_fold [of "length tmp" tmp chars] by (simp add: ident_units_def)































section \<open>References held by a slot\<close>














section \<open>Identifiers and units\<close>

text \<open>The conversion of a signed \<open>char\<close> to \<open>std::uint32_t\<close>.\<close>

lemma sint8: "sint (w :: 8 word) = (if uint w < 128 then uint w else uint w - 256)"
proof -
  have b: "0 \<le> uint w" "uint w < 256" using uint_lt2p [of w] by simp_all
  have "sint w = (uint w + 128) mod 256 - 128"
    by (simp add: sint_uint signed_take_bit_eq_take_bit_shift take_bit_eq_mod)
  also have "\<dots> = (if uint w < 128 then uint w else uint w - 256)"
  proof (cases "uint w < 128")
    case True
    then have "(uint w + 128) mod 256 = uint w + 128"
      using b by (intro mod_pos_pos_trivial) simp_all
    then show ?thesis using True by simp
  next
    case False
    then have "(uint w + 128) mod 256 = uint w + 128 - 256"
      using b by (intro int_mod_pos_eq [where q = 1]) simp_all
    then show ?thesis using False by simp
  qed
  finally show ?thesis .
qed

lemma widen_eq:
  "widen c = (if of_char c < (128 :: nat) then of_nat (of_char c) else of_nat (of_char c) + 0xFFFFFF00)"
proof -
  let ?n = "of_char c :: nat"
  have n: "?n < 256" by simp
  have w: "(of_char c :: 8 word) = of_nat ?n" by (rule of_nat_of_char [symmetric])
  have "unat (of_nat ?n :: 8 word) = ?n"
    using n by (simp add: unat_of_nat)
  then have u: "uint (of_nat ?n :: 8 word) = int ?n"
    by (simp add: uint_nat)
  have "widen c = word_of_int (sint (of_nat ?n :: 8 word))"
    unfolding widen_def w by (rule scast_eq)
  also have "\<dots> = (if ?n < 128 then of_nat ?n else of_nat ?n + 0xFFFFFF00)"
    by (simp add: sint8 u)
  finally show ?thesis .
qed

text \<open>
  C8. What the branch for IDENT and UNITS writes, for an identifier of at most 255
  characters within the record: a slot of exactly 255 code units of 32 bits, a
  character below \<open>0x80\<close> as its code, the rest zero. A character from \<open>0x80\<close> on
  is not written as its code: \<open>std::uint32_t(tmp[i])\<close> converts a negative \<open>char\<close>
  and gives the code plus \<open>0xFFFFFF00\<close>, which is no code point.
\<close>

theorem ident_field_slot:
  assumes "f = DLIS_FMT_IDENT \<or> f = DLIS_FMT_UNITS"
    and "dlis_ident C (drop (ptr s) bytes) = (n, tmp)"
    and "length tmp \<le> 255" and "ptr s + n \<le> length bytes"
  shows "field C bytes f s =
           Ok (s\<lparr>ptr := ptr s + n,
                 mem := (mem s)(dst s \<mapsto> Unicode
                   (map (\<lambda>c. if of_char c < (128 :: nat) then of_nat (of_char c)
                              else of_nat (of_char c) + 0xFFFFFF00) tmp
                    @ replicate (255 - length tmp) 0)),
                 dst := dst s + 255 * 4\<rparr>)"
proof -
  have f: "field C bytes f s =
      and_then (consume bytes n s)
        (\<lambda>s. if chars < length tmp
             then Fail (undefined_behaviour ''identifier longer than tmp[255]'') s
             else Ok (s\<lparr>mem := (mem s)(dst s \<mapsto> Unicode (ident_units tmp)),
                        dst := dst s + ident_size\<rparr>))"
    using assms(1,2) by (auto simp: field_def)
  have "length tmp \<le> chars"
    using assms(3) by (simp add: chars_def)
  then have "ident_units tmp = map widen tmp @ replicate (255 - length tmp) 0"
    by (simp add: ident_units_eq) (simp add: chars_def)
  moreover have "map widen tmp = map (\<lambda>c. if of_char c < (128 :: nat) then of_nat (of_char c)
                              else of_nat (of_char c) + 0xFFFFFF00) tmp"
    by (rule map_cong [OF refl]) (rule widen_eq)
  ultimately show ?thesis
    using assms(3,4) by (simp add: f consume_def chars_def ident_size_def)
qed

text \<open>
  The code at a failing input: the units \<open>0xB0 F\<close> (degrees Fahrenheit, the degree
  sign in Latin-1). The first code unit written is \<open>0xFFFFFFB0\<close>, not \<open>0xB0\<close>.
\<close>

theorem ident_field_slot_witness:
  "field rp66 [CHR 0x02, CHR 0xB0, CHR 0x46] DLIS_FMT_UNITS none_buffer
     = Ok (none_buffer\<lparr>ptr := 3,
             mem := (mem none_buffer)(0 \<mapsto> Unicode ([0xFFFFFFB0, 0x46] @ replicate 253 0)),
             dst := 1020\<rparr>)"
  using ident_field_slot
    [of DLIS_FMT_UNITS rp66 none_buffer "[CHR 0x02, CHR 0xB0, CHR 0x46]" 3 "[CHR 0xB0, CHR 0x46]"]
  by (simp add: rp66_def rp66_ident_def byte_at_def none_buffer_def)

text \<open>
  The branch has no failure of its own: whatever it is given, it throws nothing.
\<close>

lemma ident_field_throws_nothing:
  assumes "f = DLIS_FMT_IDENT \<or> f = DLIS_FMT_UNITS"
  shows "thrown (field C bytes f s) = None"
  using assms by (auto simp: field_def consume_def Let_def split: prod.splits)

end
